theory Spec2Isabelle
  imports Complex_Main
begin

section \<open>Data model of bouncing\_ball.js\<close>

text \<open>
  The program keeps its numbers in JavaScript variables and in the string attributes
  \<^verbatim>\<open>cx\<close>, \<^verbatim>\<open>cy\<close> and \<^verbatim>\<open>r\<close> of an SVG circle, which it reads back through
  \<^verbatim>\<open>parseInt\<close>. Pointer coordinates and viewport dimensions are taken to be whole
  numbers of pixels. Every value the program then writes is a sum, difference or negation
  of whole numbers or the result of \<^verbatim>\<open>Math.round\<close>, so velocities and attributes are
  whole numbers too, far below \<open>2\<^sup>5\<^sup>3\<close>, where JavaScript numbers are exact. They are
  modelled as \<^typ>\<open>int\<close>; \<^verbatim>\<open>parseInt\<close> of the decimal string of a whole number gives
  that number back, so an attribute read is the stored integer. (The one fraction the
  program can write is the centre \<^verbatim>\<open>svg.width / 2\<close> of a new ball on a viewport of odd
  size; it is only ever read through \<^verbatim>\<open>parseInt\<close>, and \<open>new_Ball\<close> below takes the
  whole numbers that are read.)

  The fluid resistance leaves the integers: \<^verbatim>\<open>Math.sqrt\<close>, \<^verbatim>\<open>Math.pow\<close> and the
  products with the constant 0.0002 are operations on doubles, and their rounding decides
  what \<^verbatim>\<open>Math.round\<close> returns. They are modelled with the rounding to the nearest
  double written out (\<open>to_double\<close> below). The values of \<^verbatim>\<open>Math.random\<close> are an input
  of the model, real numbers in \<open>[0, 1)\<close>, and their products are taken exactly.

  The pointer position is taken to be known (a \<^verbatim>\<open>mousemove\<close> has been seen), and the
  two controls \<^verbatim>\<open>ball_selector\<close> and \<^verbatim>\<open>ball_size_range\<close> keep the value assigned to
  them.
\<close>

datatype js_error = TypeError

text \<open>The object built by \<^verbatim>\<open>new DragState(offset_x, offset_y)\<close>; its fields
  \<^verbatim>\<open>vel_x\<close>, \<^verbatim>\<open>vel_y\<close> are named \<open>dvel_x\<close>, \<open>dvel_y\<close> here, apart from the ball's.\<close>

record DragState =
  offset_x :: int
  offset_y :: int
  dvel_x :: int
  dvel_y :: int
  pos_x :: int
  pos_y :: int

text \<open>The attributes of the SVG circle element of a ball. A removed attribute is \<open>None\<close>.\<close>

record circle =
  attr_cx :: int
  attr_cy :: int
  attr_r :: int
  attr_fill :: string
  attr_stroke :: "string option"
  attr_stroke_width :: "string option"

record ball =
  vel_x :: int
  vel_y :: int
  elem :: circle
  drag_state :: "DragState option"

text \<open>The global variables and the page elements the functions read and write.\<close>

record page =
  mouse_x :: int
  mouse_y :: int
  balls :: "ball list"
  ball_selector_value :: int
  ball_size_range_value :: int
  svg_width :: int
  svg_height :: int
  gravity_checkbox :: bool
  resistance_checkbox :: bool

section \<open>Balls and drag states\<close>

definition new_DragState :: "int \<Rightarrow> int \<Rightarrow> DragState" where
  "new_DragState ox oy =
     \<lparr>offset_x = ox, offset_y = oy, dvel_x = 0, dvel_y = 0, pos_x = 0, pos_y = 0\<rparr>"

definition update_velocity :: "int \<Rightarrow> int \<Rightarrow> DragState \<Rightarrow> DragState" where
  "update_velocity new_x new_y d =
     d\<lparr>dvel_x := new_x - pos_x d, dvel_y := new_y - pos_y d,
       pos_x := new_x, pos_y := new_y\<rparr>"

definition new_Ball :: "int \<Rightarrow> int \<Rightarrow> int \<Rightarrow> ball" where
  "new_Ball px py rad =
     \<lparr>vel_x = 0, vel_y = 0,
      elem = \<lparr>attr_cx = px, attr_cy = py, attr_r = rad, attr_fill = ''blue'',
              attr_stroke = None, attr_stroke_width = None\<rparr>,
      drag_state = None\<rparr>"

text \<open>\<^verbatim>\<open>start_drag\<close> reads the globals \<^verbatim>\<open>mouse_x\<close>, \<^verbatim>\<open>mouse_y\<close>, passed here as
  \<open>mx\<close>, \<open>my\<close>.\<close>

definition start_drag :: "int \<Rightarrow> int \<Rightarrow> ball \<Rightarrow> ball" where
  "start_drag mx my b =
     b\<lparr>vel_x := 0, vel_y := 0,
       drag_state := Some (new_DragState (mx - attr_cx (elem b)) (my - attr_cy (elem b)))\<rparr>"

text \<open>\<^verbatim>\<open>stop_drag\<close> reads \<^verbatim>\<open>this.drag_state.vel_x\<close>: on a ball that is not dragged
  this is a property read on \<^verbatim>\<open>null\<close>, a TypeError.\<close>

definition stop_drag :: "ball \<Rightarrow> js_error + ball" where
  "stop_drag b =
     (case drag_state b of
        None \<Rightarrow> Inl TypeError
      | Some d \<Rightarrow> Inr (b\<lparr>vel_x := dvel_x d, vel_y := dvel_y d, drag_state := None\<rparr>))"

text \<open>The pointer-follow part of a frame (lines 249 to 259 of the source): a dragged ball
  is moved to the pointer and its drag state takes the pointer's displacement.\<close>

definition follow_mouse :: "int \<Rightarrow> int \<Rightarrow> ball \<Rightarrow> ball" where
  "follow_mouse mx my b =
     (case drag_state b of
        None \<Rightarrow> b
      | Some d \<Rightarrow>
          b\<lparr>elem := (elem b)\<lparr>attr_cx := mx - offset_x d, attr_cy := my - offset_y d\<rparr>,
            drag_state := Some (update_velocity mx my d)\<rparr>)"

section \<open>One frame of the animation\<close>

text \<open>\<^verbatim>\<open>Math.round\<close> rounds to the nearest integer, a half upwards.\<close>

definition Math_round :: "real \<Rightarrow> int" where
  "Math_round x = \<lfloor>x + 1 / 2\<rfloor>"

definition Math_floor :: "real \<Rightarrow> int" where
  "Math_floor x = \<lfloor>x\<rfloor>"

text \<open>
  The arithmetic of the fluid resistance is done in IEEE double precision: every operation
  gives the double nearest to the exact result, a tie going to the even mantissa.
  \<open>to_double\<close> is this rounding for the normal range of doubles (53 bits of mantissa; no
  overflow to infinity and no subnormal numbers, which the products of the program, of
  whole numbers of pixels with 0.0002, do not reach).
\<close>

definition round_half_even :: "real \<Rightarrow> int" where
  "round_half_even x =
     (let f = \<lfloor>x\<rfloor>; d = x - real_of_int f
      in if d < 1 / 2 then f else if 1 / 2 < d then f + 1 else if even f then f else f + 1)"

definition to_double :: "real \<Rightarrow> real" where
  "to_double x =
     (if x = 0 then 0
      else (let u = 2 powr real_of_int (\<lfloor>log 2 \<bar>x\<bar>\<rfloor> - 52)
            in real_of_int (round_half_even (x / u)) * u))"

text \<open>The operators \<^verbatim>\<open>+\<close> and \<^verbatim>\<open>*\<close> on doubles, \<^verbatim>\<open>Math.sqrt\<close> and
  \<^verbatim>\<open>Math.pow\<close> with a whole exponent.\<close>

definition dadd :: "real \<Rightarrow> real \<Rightarrow> real" where
  "dadd x y = to_double (x + y)"

definition dmul :: "real \<Rightarrow> real \<Rightarrow> real" where
  "dmul x y = to_double (x * y)"

definition Math_sqrt :: "real \<Rightarrow> real" where
  "Math_sqrt x = to_double (sqrt x)"

definition Math_pow :: "real \<Rightarrow> nat \<Rightarrow> real" where
  "Math_pow x n = to_double (x ^ n)"

text \<open>Lines 223 to 228: the velocity changes of the fluid resistance. The literal
  \<^verbatim>\<open>0.0002\<close> is the double nearest to it.\<close>

definition x_accel :: "ball \<Rightarrow> int" where
  "x_accel b =
     Math_round
       (dmul (dmul (dmul
          (Math_sqrt (dadd (Math_pow (real_of_int (vel_y b)) 2)
                           (Math_pow (real_of_int (vel_x b)) 2)))
          (real_of_int (vel_x b)))
          (to_double 0.0002))
          (real_of_int (attr_r (elem b))))"

definition y_accel :: "ball \<Rightarrow> int" where
  "y_accel b =
     Math_round
       (dmul (dmul (dmul
          (Math_sqrt (dadd (Math_pow (real_of_int (vel_y b)) 2)
                           (Math_pow (real_of_int (vel_x b)) 2)))
          (real_of_int (vel_y b)))
          (to_double 0.0002))
          (real_of_int (attr_r (elem b))))"

text \<open>Lines 206 to 210.\<close>

definition apply_gravity :: "bool \<Rightarrow> ball \<Rightarrow> ball" where
  "apply_gravity gravity b =
     (if gravity then (if drag_state b = None then b\<lparr>vel_y := vel_y b + 1\<rparr> else b)
      else b)"

text \<open>Lines 233 to 236, for one component: the velocity \<open>v\<close> after the change \<open>accel\<close>.\<close>

definition resist :: "int \<Rightarrow> int \<Rightarrow> int" where
  "resist accel v = (if accel > \<bar>v\<bar> then 0 else v - accel)"

text \<open>Lines 219 to 238. Both changes are computed before either velocity is updated.\<close>

definition apply_resistance :: "bool \<Rightarrow> ball \<Rightarrow> ball" where
  "apply_resistance resistance b =
     (if resistance then
        (if drag_state b = None then
           (let xa = x_accel b; ya = y_accel b
            in b\<lparr>vel_x := resist xa (vel_x b), vel_y := resist ya (vel_y b)\<rparr>)
         else b)
      else b)"

text \<open>Lines 241 to 246.\<close>

definition move :: "ball \<Rightarrow> ball" where
  "move b =
     b\<lparr>elem := (elem b)\<lparr>attr_cx := attr_cx (elem b) + vel_x b,
                        attr_cy := attr_cy (elem b) + vel_y b\<rparr>\<rparr>"

text \<open>The body of the loop of \<^verbatim>\<open>advance_frame\<close>, for one ball.\<close>

definition advance_ball :: "bool \<Rightarrow> bool \<Rightarrow> int \<Rightarrow> int \<Rightarrow> ball \<Rightarrow> ball" where
  "advance_ball gravity resistance mx my b =
     follow_mouse mx my (move (apply_resistance resistance (apply_gravity gravity b)))"

section \<open>Wall collisions\<close>

definition bind_err :: "js_error + 'a \<Rightarrow> ('a \<Rightarrow> js_error + 'b) \<Rightarrow> js_error + 'b" where
  "bind_err m f = (case m of Inl e \<Rightarrow> Inl e | Inr x \<Rightarrow> f x)"

fun map_err :: "('a \<Rightarrow> js_error + 'b) \<Rightarrow> 'a list \<Rightarrow> js_error + 'b list" where
  "map_err f [] = Inr []"
| "map_err f (x # xs) =
     bind_err (f x) (\<lambda>y. bind_err (map_err f xs) (\<lambda>ys. Inr (y # ys)))"

text \<open>\<^verbatim>\<open>if (balls[i].drag_state != null) balls[i].stop_drag();\<close>\<close>

definition release_dragged :: "ball \<Rightarrow> js_error + ball" where
  "release_dragged b = (if drag_state b \<noteq> None then stop_drag b else Inr b)"

text \<open>The four checks of the loop body of \<^verbatim>\<open>handle_collisions\<close>, in the order of the
  source; \<open>w\<close> and \<open>h\<close> are \<^verbatim>\<open>svg.width.animVal.value\<close> and
  \<^verbatim>\<open>svg.height.animVal.value\<close>.\<close>

definition collide_left :: "ball \<Rightarrow> js_error + ball" where
  "collide_left b =
     (if attr_cx (elem b) - attr_r (elem b) \<le> 0 then
        bind_err (release_dragged b) (\<lambda>b1.
          Inr (b1\<lparr>vel_x := - vel_x b1,
                  elem := (elem b1)\<lparr>attr_cx := 1 + attr_r (elem b1)\<rparr>\<rparr>))
      else Inr b)"

definition collide_right :: "int \<Rightarrow> ball \<Rightarrow> js_error + ball" where
  "collide_right w b =
     (if attr_cx (elem b) + attr_r (elem b) \<ge> w then
        bind_err (release_dragged b) (\<lambda>b1.
          Inr (b1\<lparr>vel_x := - vel_x b1,
                  elem := (elem b1)\<lparr>attr_cx := w - 1 - attr_r (elem b1)\<rparr>\<rparr>))
      else Inr b)"

definition collide_top :: "ball \<Rightarrow> js_error + ball" where
  "collide_top b =
     (if attr_cy (elem b) - attr_r (elem b) \<le> 0 then
        bind_err (release_dragged b) (\<lambda>b1.
          Inr (b1\<lparr>vel_y := - vel_y b1,
                  elem := (elem b1)\<lparr>attr_cy := 1 + attr_r (elem b1)\<rparr>\<rparr>))
      else Inr b)"

definition collide_bottom :: "int \<Rightarrow> ball \<Rightarrow> js_error + ball" where
  "collide_bottom h b =
     (if attr_cy (elem b) + attr_r (elem b) \<ge> h then
        bind_err (release_dragged b) (\<lambda>b1.
          Inr (b1\<lparr>vel_y := - vel_y b1,
                  elem := (elem b1)\<lparr>attr_cy := h - 1 - attr_r (elem b1)\<rparr>\<rparr>))
      else Inr b)"

definition collide_walls :: "int \<Rightarrow> int \<Rightarrow> ball \<Rightarrow> js_error + ball" where
  "collide_walls w h b =
     bind_err (bind_err (bind_err (collide_left b) (collide_right w)) collide_top)
       (collide_bottom h)"

definition handle_collisions :: "page \<Rightarrow> js_error + page" where
  "handle_collisions p =
     bind_err (map_err (collide_walls (svg_width p) (svg_height p)) (balls p))
       (\<lambda>bs. Inr (p\<lparr>balls := bs\<rparr>))"

definition advance_frame :: "page \<Rightarrow> js_error + page" where
  "advance_frame p =
     handle_collisions
       (p\<lparr>balls := map (advance_ball (gravity_checkbox p) (resistance_checkbox p)
                          (mouse_x p) (mouse_y p)) (balls p)\<rparr>)"

text \<open>What happens between two frames is outside the program: the pointer moves and the two
  checkboxes are set. A tick is these inputs followed by \<^verbatim>\<open>advance_frame\<close>.\<close>

record inputs =
  in_mouse_x :: int
  in_mouse_y :: int
  in_gravity :: bool
  in_resistance :: bool

definition tick :: "inputs \<Rightarrow> page \<Rightarrow> js_error + page" where
  "tick i p =
     advance_frame (p\<lparr>mouse_x := in_mouse_x i, mouse_y := in_mouse_y i,
                      gravity_checkbox := in_gravity i,
                      resistance_checkbox := in_resistance i\<rparr>)"

fun ticks :: "inputs list \<Rightarrow> page \<Rightarrow> js_error + page" where
  "ticks [] p = Inr p"
| "ticks (i # is) p = bind_err (tick i p) (ticks is)"

section \<open>Selecting a ball\<close>

definition clear_highlight :: "ball \<Rightarrow> ball" where
  "clear_highlight b = b\<lparr>elem := (elem b)\<lparr>attr_stroke := None, attr_stroke_width := None\<rparr>\<rparr>"

definition highlight :: "ball \<Rightarrow> ball" where
  "highlight b =
     b\<lparr>elem := (elem b)\<lparr>attr_stroke := Some ''red'', attr_stroke_width := Some ''4''\<rparr>\<rparr>"

text \<open>\<^verbatim>\<open>balls[ball_num - 1]\<close> is \<^verbatim>\<open>undefined\<close> outside the array, and reading its
  \<^verbatim>\<open>elem\<close> is a TypeError.\<close>

definition select_ball :: "int \<Rightarrow> page \<Rightarrow> js_error + page" where
  "select_ball ball_num p =
     (if 1 \<le> ball_num \<and> ball_num \<le> int (length (balls p)) then
        (let i = nat (ball_num - 1);
             bs = map clear_highlight (balls p)
         in Inr (p\<lparr>ball_selector_value := ball_num,
                   ball_size_range_value := attr_r (elem (balls p ! i)),
                   balls := bs[i := highlight (bs ! i)]\<rparr>))
      else Inl TypeError)"

definition highlighted :: "ball \<Rightarrow> bool" where
  "highlighted b = (attr_stroke (elem b) \<noteq> None)"

section \<open>The infinite improbability drive\<close>

definition hex_digit :: "nat \<Rightarrow> char" where
  "hex_digit n = ''0123456789abcdef'' ! n"

function toString16 :: "nat \<Rightarrow> string" where
  "toString16 n =
     (if n < 16 then [hex_digit n] else toString16 (n div 16) @ [hex_digit (n mod 16)])"
  by pat_completeness auto
termination
  by (relation "measure id") auto

definition rdm_hex_pair :: "real \<Rightarrow> string" where
  "rdm_hex_pair u =
     (let pair = toString16 (nat (Math_floor (u * 256)))
      in if length pair < 2 then ''0'' @ pair else pair)"

text \<open>The loop body of \<^verbatim>\<open>infinite_improbability_drive\<close> for one ball. It calls
  \<^verbatim>\<open>Math.random\<close> eight times; \<open>u 0\<close>, ..., \<open>u 7\<close> are the values drawn, in order.\<close>

definition improbable_ball :: "int \<Rightarrow> int \<Rightarrow> (nat \<Rightarrow> real) \<Rightarrow> ball \<Rightarrow> ball" where
  "improbable_ball w h u b =
     b\<lparr>vel_x := Math_round (u 6 * 50),
       vel_y := Math_round (u 7 * 50),
       elem := (elem b)\<lparr>
         attr_fill := ''#'' @ rdm_hex_pair (u 0) @ rdm_hex_pair (u 1) @ rdm_hex_pair (u 2),
         attr_cx := Math_round (u 3 * real_of_int w),
         attr_cy := Math_round (u 4 * real_of_int h),
         attr_r := Math_round (u 5 * 145) + 5\<rparr>\<rparr>"

text \<open>The loop over all balls: the ball at position \<open>k\<close> of the draws takes the next eight.\<close>

fun improbable_balls :: "int \<Rightarrow> int \<Rightarrow> (nat \<Rightarrow> real) \<Rightarrow> nat \<Rightarrow> ball list \<Rightarrow> ball list" where
  "improbable_balls w h u k [] = []"
| "improbable_balls w h u k (b # bs) =
     improbable_ball w h (\<lambda>j. u (k + j)) b # improbable_balls w h u (k + 8) bs"

definition infinite_improbability_drive :: "(nat \<Rightarrow> real) \<Rightarrow> page \<Rightarrow> js_error + page" where
  "infinite_improbability_drive u p =
     select_ball (ball_selector_value p)
       (p\<lparr>balls := improbable_balls (svg_width p) (svg_height p) u 0 (balls p)\<rparr>)"

section \<open>Properties the specification speaks of\<close>



text \<open>The four boundary tests of the specification, on the ball as the resolver finds it.\<close>

definition violates :: "int \<Rightarrow> int \<Rightarrow> ball \<Rightarrow> bool" where
  "violates w h b =
     (attr_cx (elem b) - attr_r (elem b) \<le> 0 \<or> attr_cx (elem b) + attr_r (elem b) \<ge> w \<or>
      attr_cy (elem b) - attr_r (elem b) \<le> 0 \<or> attr_cy (elem b) + attr_r (elem b) \<ge> h)"

text \<open>The resistance of the specification's words: \<open>speed = sqrt(vx\<^sup>2 + vy\<^sup>2)\<close> and
  \<open>accel = round(speed * v * k * diameter)\<close>, computed in double precision as the code
  computes; \<open>k\<close> is a literal of the program text.\<close>

definition speed :: "ball \<Rightarrow> real" where
  "speed b =
     Math_sqrt (dadd (Math_pow (real_of_int (vel_x b)) 2) (Math_pow (real_of_int (vel_y b)) 2))"

definition spec_accel :: "real \<Rightarrow> real \<Rightarrow> real \<Rightarrow> real \<Rightarrow> int" where
  "spec_accel spd v k diameter = Math_round (dmul (dmul (dmul spd v) (to_double k)) diameter)"

text \<open>A ball that is held has velocity zero.\<close>

definition held_still :: "ball \<Rightarrow> bool" where
  "held_still b = (drag_state b = None \<or> (vel_x b = 0 \<and> vel_y b = 0))"

text \<open>A page of the given viewport size holding the given balls, the first one selected,
  both checkboxes clear and the pointer in the corner.\<close>

definition page_with :: "int \<Rightarrow> int \<Rightarrow> ball list \<Rightarrow> page" where
  "page_with w h bs =
     \<lparr>mouse_x = 0, mouse_y = 0, balls = bs, ball_selector_value = 1,
      ball_size_range_value = 20, svg_width = w, svg_height = h,
      gravity_checkbox = False, resistance_checkbox = False\<rparr>"

text \<open>The \<^verbatim>\<open>mousedown\<close> event on the circle of ball \<open>k\<close>: \<^verbatim>\<open>handleEvent\<close> calls
  \<^verbatim>\<open>start_drag\<close> on that ball.\<close>

definition mousedown :: "nat \<Rightarrow> page \<Rightarrow> page" where
  "mousedown k p = p\<lparr>balls := (balls p)[k := start_drag (mouse_x p) (mouse_y p) (balls p ! k)]\<rparr>"

text \<open>The ranges the specification gives for a ball after the improbability drive.\<close>

definition improbable_ok :: "int \<Rightarrow> int \<Rightarrow> ball \<Rightarrow> bool" where
  "improbable_ok w h b =
     (5 \<le> attr_r (elem b) \<and> attr_r (elem b) \<le> 150 \<and>
      0 \<le> attr_cx (elem b) \<and> attr_cx (elem b) \<le> w \<and>
      0 \<le> attr_cy (elem b) \<and> attr_cy (elem b) \<le> h \<and>
      0 \<le> vel_x b \<and> vel_x b \<le> 50 \<and> 0 \<le> vel_y b \<and> vel_y b \<le> 50)"

section \<open>Dragging\<close>

lemma start_drag_fields:
  "vel_x (start_drag mx my b) = 0"
  "vel_y (start_drag mx my b) = 0"
  "elem (start_drag mx my b) = elem b"
  "drag_state (start_drag mx my b) =
     Some \<lparr>offset_x = mx - attr_cx (elem b), offset_y = my - attr_cy (elem b),
           dvel_x = 0, dvel_y = 0, pos_x = 0, pos_y = 0\<rparr>"
  by (simp_all add: start_drag_def new_DragState_def)

lemma first_update_velocity:
  "update_velocity x2 y2 (new_DragState ox oy) =
     \<lparr>offset_x = ox, offset_y = oy, dvel_x = x2, dvel_y = y2, pos_x = x2, pos_y = y2\<rparr>"
  by (simp add: update_velocity_def new_DragState_def)

lemma drag_one_frame_then_stop:
  "stop_drag (follow_mouse x2 y2 (start_drag x1 y1 b)) =
     Inr (b\<lparr>vel_x := x2, vel_y := y2,
            elem := (elem b)\<lparr>attr_cx := x2 - (x1 - attr_cx (elem b)),
                              attr_cy := y2 - (y1 - attr_cy (elem b))\<rparr>,
            drag_state := None\<rparr>)"
  by (simp add: stop_drag_def follow_mouse_def start_drag_def first_update_velocity)
    (simp add: new_DragState_def)

text \<open>
  Claim C2. The claim: \<^verbatim>\<open>start_drag\<close> at pointer \<open>(px, py)\<close> zeroes the velocity, sets the
  offset to \<open>(px - cx, py - cy)\<close> and stores \<open>(px, py)\<close> as the last pointer position, so
  that one update at \<open>(px2, py2)\<close> followed by \<^verbatim>\<open>stop_drag\<close> leaves the velocity
  \<open>(px2 - px, py2 - py)\<close>. The code creates the drag state with last position \<open>(0, 0)\<close>:
  for the ball at \<open>(400, 300)\<close> grabbed at \<open>(405, 305)\<close> and released after one frame with
  the pointer at \<open>(410, 310)\<close>, the velocity is \<open>(410, 310)\<close>, not \<open>(5, 5)\<close>. The zeroed
  velocity and the offset \<open>(5, 5)\<close> are as the claim says.
\<close>

theorem C2_drag_commit_first_frame:
  "start_drag 405 305 (new_Ball 400 300 20)
     = (new_Ball 400 300 20)\<lparr>drag_state :=
          Some \<lparr>offset_x = 5, offset_y = 5, dvel_x = 0, dvel_y = 0, pos_x = 0, pos_y = 0\<rparr>\<rparr> \<and>
   follow_mouse 410 310 (start_drag 405 305 (new_Ball 400 300 20))
     = (new_Ball 405 305 20)\<lparr>drag_state :=
          Some \<lparr>offset_x = 5, offset_y = 5, dvel_x = 410, dvel_y = 310,
                pos_x = 410, pos_y = 310\<rparr>\<rparr> \<and>
   stop_drag (follow_mouse 410 310 (start_drag 405 305 (new_Ball 400 300 20)))
     = Inr ((new_Ball 405 305 20)\<lparr>vel_x := 410, vel_y := 310\<rparr>)"
  by (simp add: stop_drag_def follow_mouse_def start_drag_def new_Ball_def
      new_DragState_def update_velocity_def)

section \<open>Wall collisions: one ball\<close>

lemma bind_err_Inr [simp]: "bind_err (Inr x) f = f x"
  by (simp add: bind_err_def)

lemma bind_err_Inl [simp]: "bind_err (Inl e) f = Inl e"
  by (simp add: bind_err_def)

lemma release_dragged_free: "drag_state b = None \<Longrightarrow> release_dragged b = Inr b"
  by (simp add: release_dragged_def)

lemma release_dragged_held:
  "drag_state b = Some d \<Longrightarrow>
   release_dragged b = Inr (b\<lparr>vel_x := dvel_x d, vel_y := dvel_y d, drag_state := None\<rparr>)"
  by (simp add: release_dragged_def stop_drag_def)

lemma release_dragged_total:
  "\<exists>b1. release_dragged b = Inr b1 \<and> drag_state b1 = None \<and> elem b1 = elem b"
  by (cases "drag_state b") (simp_all add: release_dragged_free release_dragged_held)

lemma map_err_total:
  assumes "\<forall>x \<in> set xs. \<exists>y. f x = Inr y \<and> P x y"
  shows "\<exists>ys. map_err f xs = Inr ys \<and> list_all2 P xs ys"
  using assms
proof (induction xs)
  case Nil
  then show ?case by simp
next
  case (Cons x xs)
  then obtain y where y: "f x = Inr y" "P x y" by auto
  from Cons obtain ys where ys: "map_err f xs = Inr ys" "list_all2 P xs ys" by auto
  show ?case using y ys by simp
qed

text \<open>Each check leaves the radius and the other coordinate alone; when it fires it places
  the ball one unit inside its wall and leaves it free, otherwise it changes nothing.\<close>

lemma collide_left_cases:
  "\<exists>b1. collide_left b = Inr b1 \<and> attr_r (elem b1) = attr_r (elem b) \<and>
     attr_cy (elem b1) = attr_cy (elem b) \<and>
     (if attr_cx (elem b) - attr_r (elem b) \<le> 0
      then attr_cx (elem b1) = 1 + attr_r (elem b) \<and> drag_state b1 = None
      else b1 = b)"
  using release_dragged_total [of b] by (auto simp add: collide_left_def)

lemma collide_right_cases:
  "\<exists>b1. collide_right w b = Inr b1 \<and> attr_r (elem b1) = attr_r (elem b) \<and>
     attr_cy (elem b1) = attr_cy (elem b) \<and>
     (if attr_cx (elem b) + attr_r (elem b) \<ge> w
      then attr_cx (elem b1) = w - 1 - attr_r (elem b) \<and> drag_state b1 = None
      else b1 = b)"
  using release_dragged_total [of b] by (auto simp add: collide_right_def)

lemma collide_top_cases:
  "\<exists>b1. collide_top b = Inr b1 \<and> attr_r (elem b1) = attr_r (elem b) \<and>
     attr_cx (elem b1) = attr_cx (elem b) \<and>
     (if attr_cy (elem b) - attr_r (elem b) \<le> 0
      then attr_cy (elem b1) = 1 + attr_r (elem b) \<and> drag_state b1 = None
      else b1 = b)"
  using release_dragged_total [of b] by (auto simp add: collide_top_def)

lemma collide_bottom_cases:
  "\<exists>b1. collide_bottom h b = Inr b1 \<and> attr_r (elem b1) = attr_r (elem b) \<and>
     attr_cx (elem b1) = attr_cx (elem b) \<and>
     (if attr_cy (elem b) + attr_r (elem b) \<ge> h
      then attr_cy (elem b1) = h - 1 - attr_r (elem b) \<and> drag_state b1 = None
      else b1 = b)"
  using release_dragged_total [of b] by (auto simp add: collide_bottom_def)



section \<open>Wall collisions: all balls\<close>

lemma collide_walls_total: "\<exists>b'. collide_walls w h b = Inr b'"
proof -
  obtain b1 where b1: "collide_left b = Inr b1"
    using collide_left_cases [of b] by blast
  obtain b2 where b2: "collide_right w b1 = Inr b2"
    using collide_right_cases [of w b1] by blast
  obtain b3 where b3: "collide_top b2 = Inr b3"
    using collide_top_cases [of b2] by blast
  obtain b4 where b4: "collide_bottom h b3 = Inr b4"
    using collide_bottom_cases [of h b3] by blast
  show ?thesis by (simp add: collide_walls_def b1 b2 b3 b4)
qed

text \<open>\<^verbatim>\<open>handle_collisions\<close> never fails, and the ball at each position of the result is
  the ball at that position after its four checks.\<close>

lemma handle_collisions_nth:
  "\<exists>bs. handle_collisions p = Inr (p\<lparr>balls := bs\<rparr>) \<and> length bs = length (balls p) \<and>
     (\<forall>k < length (balls p).
        collide_walls (svg_width p) (svg_height p) (balls p ! k) = Inr (bs ! k))"
proof -
  let ?f = "collide_walls (svg_width p) (svg_height p)"
  have "\<forall>b \<in> set (balls p). \<exists>b'. ?f b = Inr b' \<and> ?f b = Inr b'"
    using collide_walls_total by simp
  then obtain bs where bs: "map_err ?f (balls p) = Inr bs"
      "list_all2 (\<lambda>b b'. ?f b = Inr b') (balls p) bs"
    using map_err_total [of "balls p" ?f "\<lambda>b b'. ?f b = Inr b'"] by blast
  then show ?thesis
    by (auto simp add: handle_collisions_def list_all2_conv_all_nth)
qed




text \<open>
  Claim C4, as amended. A ball of the page that is not held, whose left edge is at or
  beyond the left wall (\<open>cx - r \<le> 0\<close>) and which, once moved to \<open>cx = r + 1\<close>, touches
  no other wall (the viewport is wider than \<open>2 r + 1\<close>, and \<open>0 < cy - r\<close>,
  \<open>cy + r < height\<close>) leaves \<^verbatim>\<open>handle_collisions\<close> with velocity \<open>(- vx, vy)\<close> and
  \<open>cx = r + 1\<close>, all else unchanged. The scenario of the specification, \<open>x = 15\<close>,
  \<open>r = 20\<close>, \<open>vx = - 5\<close>, ends with \<open>vx = 5\<close> and \<open>x = 21\<close>.
\<close>

theorem C4_left_reflection:
  assumes "k < length (balls p)"
    and "drag_state (balls p ! k) = None"
    and "attr_cx (elem (balls p ! k)) - attr_r (elem (balls p ! k)) \<le> 0"
    and "2 * attr_r (elem (balls p ! k)) + 1 < svg_width p"
    and "0 < attr_cy (elem (balls p ! k)) - attr_r (elem (balls p ! k))"
    and "attr_cy (elem (balls p ! k)) + attr_r (elem (balls p ! k)) < svg_height p"
  shows "\<exists>p'. handle_collisions p = Inr p' \<and>
      length (balls p') = length (balls p) \<and>
      balls p' ! k =
        (balls p ! k)\<lparr>vel_x := - vel_x (balls p ! k),
          elem := (elem (balls p ! k))\<lparr>attr_cx := attr_r (elem (balls p ! k)) + 1\<rparr>\<rparr>"
proof -
  obtain bs where bs: "handle_collisions p = Inr (p\<lparr>balls := bs\<rparr>)"
      "length bs = length (balls p)"
      "collide_walls (svg_width p) (svg_height p) (balls p ! k) = Inr (bs ! k)"
    using handle_collisions_nth [of p] assms(1) by blast
  have "collide_walls (svg_width p) (svg_height p) (balls p ! k) =
      Inr ((balls p ! k)\<lparr>vel_x := - vel_x (balls p ! k),
          elem := (elem (balls p ! k))\<lparr>attr_cx := attr_r (elem (balls p ! k)) + 1\<rparr>\<rparr>)"
    using assms(2-6)
    by (simp add: collide_walls_def collide_left_def collide_right_def collide_top_def
        collide_bottom_def release_dragged_free add.commute)
  then show ?thesis using bs by simp
qed

theorem C4_left_reflection_witness:
  "0 < length (balls (page_with 800 600 [(new_Ball 15 300 20)\<lparr>vel_x := - 5, vel_y := 3\<rparr>])) \<and>
   drag_state ((new_Ball 15 300 20)\<lparr>vel_x := - 5, vel_y := 3\<rparr>) = None \<and>
   attr_cx (elem ((new_Ball 15 300 20)\<lparr>vel_x := - 5, vel_y := 3\<rparr>))
     - attr_r (elem ((new_Ball 15 300 20)\<lparr>vel_x := - 5, vel_y := 3\<rparr>)) \<le> 0 \<and>
   2 * attr_r (elem ((new_Ball 15 300 20)\<lparr>vel_x := - 5, vel_y := 3\<rparr>)) + 1 < 800 \<and>
   0 < attr_cy (elem ((new_Ball 15 300 20)\<lparr>vel_x := - 5, vel_y := 3\<rparr>))
     - attr_r (elem ((new_Ball 15 300 20)\<lparr>vel_x := - 5, vel_y := 3\<rparr>)) \<and>
   attr_cy (elem ((new_Ball 15 300 20)\<lparr>vel_x := - 5, vel_y := 3\<rparr>))
     + attr_r (elem ((new_Ball 15 300 20)\<lparr>vel_x := - 5, vel_y := 3\<rparr>)) < 600 \<and>
   handle_collisions (page_with 800 600 [(new_Ball 15 300 20)\<lparr>vel_x := - 5, vel_y := 3\<rparr>])
     = Inr (page_with 800 600 [(new_Ball 21 300 20)\<lparr>vel_x := 5, vel_y := 3\<rparr>])"
  using C4_left_reflection
    [of 0 "page_with 800 600 [(new_Ball 15 300 20)\<lparr>vel_x := - 5, vel_y := 3\<rparr>]"]
  by (simp add: handle_collisions_def page_with_def collide_walls_def collide_left_def
      collide_right_def collide_top_def collide_bottom_def release_dragged_def new_Ball_def)

text \<open>
  The claim as stated, for every ball that violates the left boundary, fails when another
  check fires in the same pass. A ball in the top left corner with velocity \<open>(- 5, 3)\<close>
  comes out with velocity \<open>(5, - 3)\<close>, not \<open>(5, 3)\<close>. On a viewport 41 wide the ball of the
  scenario is moved to \<open>x = 21\<close> by the left check and, touching the right wall there,
  reflected again: it comes out with \<open>vx = - 5\<close> and \<open>x = 20\<close>.
\<close>

theorem C4_corner_counterexample:
  "handle_collisions (page_with 800 600 [(new_Ball 15 10 20)\<lparr>vel_x := - 5, vel_y := 3\<rparr>])
     = Inr (page_with 800 600 [(new_Ball 21 21 20)\<lparr>vel_x := 5, vel_y := - 3\<rparr>]) \<and>
   vel_y ((new_Ball 21 21 20)\<lparr>vel_x := 5, vel_y := - 3\<rparr>)
     \<noteq> vel_y ((new_Ball 15 10 20)\<lparr>vel_x := - 5, vel_y := 3\<rparr>) \<and>
   handle_collisions (page_with 41 600 [(new_Ball 15 300 20)\<lparr>vel_x := - 5\<rparr>])
     = Inr (page_with 41 600 [(new_Ball 20 300 20)\<lparr>vel_x := - 5\<rparr>]) \<and>
   vel_x ((new_Ball 20 300 20)\<lparr>vel_x := - 5\<rparr>)
     \<noteq> - vel_x ((new_Ball 15 300 20)\<lparr>vel_x := - 5\<rparr>) \<and>
   attr_cx (elem ((new_Ball 20 300 20)\<lparr>vel_x := - 5\<rparr>))
     \<noteq> attr_r (elem ((new_Ball 15 300 20)\<lparr>vel_x := - 5\<rparr>)) + 1"
  by (simp add: handle_collisions_def page_with_def collide_walls_def collide_left_def
      collide_right_def collide_top_def collide_bottom_def release_dragged_def new_Ball_def)

section \<open>Held balls and the walls\<close>

text \<open>All four checks together: a ball that violates a boundary comes out free, any other
  ball comes out as it went in.\<close>

lemma collide_walls_cases:
  "\<exists>b'. collide_walls w h b = Inr b' \<and>
     (if violates w h b then drag_state b' = None else b' = b)"
proof -
  obtain b1 where b1: "collide_left b = Inr b1" "attr_r (elem b1) = attr_r (elem b)"
      "attr_cy (elem b1) = attr_cy (elem b)"
      "if attr_cx (elem b) - attr_r (elem b) \<le> 0
       then attr_cx (elem b1) = 1 + attr_r (elem b) \<and> drag_state b1 = None else b1 = b"
    using collide_left_cases [of b] by blast
  obtain b2 where b2: "collide_right w b1 = Inr b2" "attr_r (elem b2) = attr_r (elem b1)"
      "attr_cy (elem b2) = attr_cy (elem b1)"
      "if attr_cx (elem b1) + attr_r (elem b1) \<ge> w
       then attr_cx (elem b2) = w - 1 - attr_r (elem b1) \<and> drag_state b2 = None else b2 = b1"
    using collide_right_cases [of w b1] by blast
  obtain b3 where b3: "collide_top b2 = Inr b3" "attr_r (elem b3) = attr_r (elem b2)"
      "attr_cx (elem b3) = attr_cx (elem b2)"
      "if attr_cy (elem b2) - attr_r (elem b2) \<le> 0
       then attr_cy (elem b3) = 1 + attr_r (elem b2) \<and> drag_state b3 = None else b3 = b2"
    using collide_top_cases [of b2] by blast
  obtain b4 where b4: "collide_bottom h b3 = Inr b4" "attr_r (elem b4) = attr_r (elem b3)"
      "attr_cx (elem b4) = attr_cx (elem b3)"
      "if attr_cy (elem b3) + attr_r (elem b3) \<ge> h
       then attr_cy (elem b4) = h - 1 - attr_r (elem b3) \<and> drag_state b4 = None else b4 = b3"
    using collide_bottom_cases [of h b3] by blast
  have run: "collide_walls w h b = Inr b4"
    by (simp add: collide_walls_def b1(1) b2(1) b3(1) b4(1))
  have "if violates w h b then drag_state b4 = None else b4 = b"
    using b1(2-4) b2(2-4) b3(2-4) b4(2-4)
    by (auto simp add: violates_def split: if_splits)
  then show ?thesis using run by simp
qed

text \<open>
  Claim C6. A held ball whose disk violates a boundary is released by the first check that
  fires: its velocity becomes the velocity of its drag state, and each check that fires
  then negates the component normal to its wall and clamps the position. The ball comes
  out of the pass free. The result is given in full: \<open>left\<close>, \<open>right\<close>, \<open>top\<close>,
  \<open>bottom\<close> say which checks fire, on the position as each check finds it.
\<close>

theorem C6_held_ball_released_on_impact:
  assumes "drag_state b = Some d" and "violates w h b"
  shows "let left = (attr_cx (elem b) - attr_r (elem b) \<le> 0);
             x1 = (if left then 1 + attr_r (elem b) else attr_cx (elem b));
             right = (x1 + attr_r (elem b) \<ge> w);
             top = (attr_cy (elem b) - attr_r (elem b) \<le> 0);
             y1 = (if top then 1 + attr_r (elem b) else attr_cy (elem b));
             bottom = (y1 + attr_r (elem b) \<ge> h)
         in collide_walls w h b =
              Inr (b\<lparr>vel_x := (if left \<noteq> right then - dvel_x d else dvel_x d),
                      vel_y := (if top \<noteq> bottom then - dvel_y d else dvel_y d),
                      elem := (elem b)\<lparr>
                        attr_cx := (if right then w - 1 - attr_r (elem b) else x1),
                        attr_cy := (if bottom then h - 1 - attr_r (elem b) else y1)\<rparr>,
                      drag_state := None\<rparr>)"
  using assms
  by (auto simp add: Let_def collide_walls_def collide_left_def collide_right_def
      collide_top_def collide_bottom_def release_dragged_def stop_drag_def violates_def)

theorem C6_held_ball_released_on_impact_witness:
  "drag_state ((new_Ball 15 300 20)\<lparr>drag_state := Some \<lparr>offset_x = 3, offset_y = 4,
      dvel_x = - 6, dvel_y = 2, pos_x = 18, pos_y = 304\<rparr>\<rparr>)
     = Some \<lparr>offset_x = 3, offset_y = 4, dvel_x = - 6, dvel_y = 2, pos_x = 18, pos_y = 304\<rparr> \<and>
   violates 800 600 ((new_Ball 15 300 20)\<lparr>drag_state := Some \<lparr>offset_x = 3, offset_y = 4,
      dvel_x = - 6, dvel_y = 2, pos_x = 18, pos_y = 304\<rparr>\<rparr>) \<and>
   collide_walls 800 600 ((new_Ball 15 300 20)\<lparr>drag_state := Some \<lparr>offset_x = 3,
      offset_y = 4, dvel_x = - 6, dvel_y = 2, pos_x = 18, pos_y = 304\<rparr>\<rparr>)
     = Inr ((new_Ball 21 300 20)\<lparr>vel_x := 6, vel_y := 2\<rparr>)"
  using C6_held_ball_released_on_impact
    [of "(new_Ball 15 300 20)\<lparr>drag_state := Some \<lparr>offset_x = 3, offset_y = 4,
           dvel_x = - 6, dvel_y = 2, pos_x = 18, pos_y = 304\<rparr>\<rparr>"
        "\<lparr>offset_x = 3, offset_y = 4, dvel_x = - 6, dvel_y = 2, pos_x = 18, pos_y = 304\<rparr>"
        800 600]
  by (simp add: new_Ball_def violates_def Let_def)

section \<open>The velocity of a held ball\<close>

lemma held_still_start_drag: "held_still (start_drag mx my b)"
  by (simp add: held_still_def start_drag_def)

lemma advance_ball_held_still:
  "held_still b \<Longrightarrow> held_still (advance_ball g res mx my b)"
  by (cases "drag_state b")
    (simp_all add: held_still_def advance_ball_def follow_mouse_def move_def
      apply_resistance_def apply_gravity_def Let_def)

lemma collide_walls_held_still:
  "held_still b \<Longrightarrow> \<exists>b'. collide_walls w h b = Inr b' \<and> held_still b'"
  using collide_walls_cases [of w h b]
  by (auto simp add: held_still_def split: if_splits)

text \<open>A frame never fails, and the ball at each position of the result is the ball at
  that position after the loop body of \<^verbatim>\<open>advance_frame\<close> and its four wall checks.\<close>

lemma tick_nth:
  "\<exists>p'. tick i p = Inr p' \<and> length (balls p') = length (balls p) \<and>
     (\<forall>k < length (balls p).
        collide_walls (svg_width p) (svg_height p)
          (advance_ball (in_gravity i) (in_resistance i) (in_mouse_x i) (in_mouse_y i)
             (balls p ! k))
        = Inr (balls p' ! k))"
proof -
  let ?q = "p\<lparr>mouse_x := in_mouse_x i, mouse_y := in_mouse_y i,
      gravity_checkbox := in_gravity i, resistance_checkbox := in_resistance i,
      balls := map (advance_ball (in_gravity i) (in_resistance i)
                      (in_mouse_x i) (in_mouse_y i)) (balls p)\<rparr>"
  obtain bs where bs: "handle_collisions ?q = Inr (?q\<lparr>balls := bs\<rparr>)"
      "length bs = length (balls ?q)"
      "\<forall>k < length (balls ?q).
         collide_walls (svg_width ?q) (svg_height ?q) (balls ?q ! k) = Inr (bs ! k)"
    using handle_collisions_nth [of ?q] by blast
  have "tick i p = Inr (?q\<lparr>balls := bs\<rparr>)"
    using bs(1) by (simp add: tick_def advance_frame_def)
  then show ?thesis using bs(2,3) by simp
qed

lemma tick_ball_held_still:
  assumes "k < length (balls p)" and "held_still (balls p ! k)"
  shows "\<exists>p'. tick i p = Inr p' \<and> length (balls p') = length (balls p) \<and>
     held_still (balls p' ! k)"
proof -
  obtain p' where p': "tick i p = Inr p'" "length (balls p') = length (balls p)"
      "collide_walls (svg_width p) (svg_height p)
         (advance_ball (in_gravity i) (in_resistance i) (in_mouse_x i) (in_mouse_y i)
            (balls p ! k))
       = Inr (balls p' ! k)"
    using tick_nth [of i p] assms(1) by blast
  have "held_still (advance_ball (in_gravity i) (in_resistance i) (in_mouse_x i)
      (in_mouse_y i) (balls p ! k))"
    using assms(2) by (rule advance_ball_held_still)
  from collide_walls_held_still [OF this, of "svg_width p" "svg_height p"] p'(3)
  have "held_still (balls p' ! k)" by auto
  then show ?thesis using p'(1,2) by blast
qed

lemma ticks_ball_held_still:
  assumes "k < length (balls p)" and "held_still (balls p ! k)"
  shows "\<exists>p'. ticks ins p = Inr p' \<and> length (balls p') = length (balls p) \<and>
     held_still (balls p' ! k)"
  using assms
proof (induction ins arbitrary: p)
  case Nil
  then show ?case by simp
next
  case (Cons i ins)
  from tick_ball_held_still [OF Cons.prems, of i] obtain p1 where
    p1: "tick i p = Inr p1" "length (balls p1) = length (balls p)"
      "held_still (balls p1 ! k)"
    by blast
  have "k < length (balls p1)" using p1(2) Cons.prems(1) by simp
  from Cons.IH [OF this p1(3)] p1 show ?case by auto
qed

lemma held_ball_follows_pointer:
  assumes "drag_state b = Some d"
  shows "elem (advance_ball g res mx my b)
     = (elem b)\<lparr>attr_cx := mx - offset_x d, attr_cy := my - offset_y d\<rparr>"
  using assms
  by (simp add: advance_ball_def apply_gravity_def apply_resistance_def move_def
      follow_mouse_def)

text \<open>
  Claim C10, as amended. After a \<^verbatim>\<open>mousedown\<close> on the ball at any position \<open>k\<close> of any
  page, any number of frames, whatever the pointer does and however the two checkboxes
  are set, never fail and leave this ball either released or with velocity \<open>(0, 0)\<close>:
  \<^verbatim>\<open>start_drag\<close> zeroes the velocity, gravity and resistance skip held balls, and a wall
  releases the ball before its velocity is touched. Nothing is asked of the other balls.
  Whatever its velocity, a held ball is placed by a frame at the pointer minus its offset.
\<close>

theorem C10_held_velocity_zero_across_frames:
  assumes "k < length (balls p)"
  shows "(\<exists>p'. ticks ins (mousedown k p) = Inr p' \<and>
            length (balls p') = length (balls p) \<and> held_still (balls p' ! k)) \<and>
         (drag_state b = Some d \<longrightarrow>
            elem (advance_ball g res mx my b)
              = (elem b)\<lparr>attr_cx := mx - offset_x d, attr_cy := my - offset_y d\<rparr>)"
proof -
  have "k < length (balls (mousedown k p))" "held_still (balls (mousedown k p) ! k)"
    using assms by (simp_all add: mousedown_def held_still_start_drag)
  from ticks_ball_held_still [OF this, of ins]
  have "\<exists>p'. ticks ins (mousedown k p) = Inr p' \<and>
      length (balls p') = length (balls p) \<and> held_still (balls p' ! k)"
    by (simp add: mousedown_def)
  then show ?thesis
    using held_ball_follows_pointer [of b d g res mx my] by simp
qed

text \<open>The witness is a page with the ball that is grabbed and another ball that is held
  with velocity \<open>(25, 25)\<close>.\<close>

theorem C10_held_velocity_zero_across_frames_witness:
  "0 < length (balls ((page_with 800 600
       [new_Ball 400 300 20,
        (new_Ball 100 100 20)\<lparr>vel_x := 25, vel_y := 25, drag_state :=
           Some \<lparr>offset_x = 10, offset_y = 10, dvel_x = 0, dvel_y = 0,
                 pos_x = 0, pos_y = 0\<rparr>\<rparr>])\<lparr>mouse_x := 405, mouse_y := 305\<rparr>)) \<and>
   ticks [\<lparr>in_mouse_x = 410, in_mouse_y = 310, in_gravity = True, in_resistance = True\<rparr>]
     (mousedown 0
        ((page_with 800 600
           [new_Ball 400 300 20,
            (new_Ball 100 100 20)\<lparr>vel_x := 25, vel_y := 25, drag_state :=
               Some \<lparr>offset_x = 10, offset_y = 10, dvel_x = 0, dvel_y = 0,
                     pos_x = 0, pos_y = 0\<rparr>\<rparr>])\<lparr>mouse_x := 405, mouse_y := 305\<rparr>))
   = Inr ((page_with 800 600
        [(new_Ball 405 305 20)\<lparr>drag_state :=
           Some \<lparr>offset_x = 5, offset_y = 5, dvel_x = 410, dvel_y = 310,
                 pos_x = 410, pos_y = 310\<rparr>\<rparr>,
         (new_Ball 400 300 20)\<lparr>vel_x := 25, vel_y := 25, drag_state :=
           Some \<lparr>offset_x = 10, offset_y = 10, dvel_x = 410, dvel_y = 310,
                 pos_x = 410, pos_y = 310\<rparr>\<rparr>])
        \<lparr>mouse_x := 410, mouse_y := 310, gravity_checkbox := True,
          resistance_checkbox := True\<rparr>) \<and>
   held_still ((new_Ball 405 305 20)\<lparr>drag_state :=
           Some \<lparr>offset_x = 5, offset_y = 5, dvel_x = 410, dvel_y = 310,
                 pos_x = 410, pos_y = 310\<rparr>\<rparr>) \<and>
   drag_state ((new_Ball 400 300 20)\<lparr>vel_x := 25, vel_y := 25, drag_state :=
           Some \<lparr>offset_x = 5, offset_y = 5, dvel_x = 0, dvel_y = 0,
                 pos_x = 0, pos_y = 0\<rparr>\<rparr>)
     = Some \<lparr>offset_x = 5, offset_y = 5, dvel_x = 0, dvel_y = 0, pos_x = 0, pos_y = 0\<rparr> \<and>
   elem (advance_ball True True 410 310
           ((new_Ball 400 300 20)\<lparr>vel_x := 25, vel_y := 25, drag_state :=
              Some \<lparr>offset_x = 5, offset_y = 5, dvel_x = 0, dvel_y = 0,
                    pos_x = 0, pos_y = 0\<rparr>\<rparr>))
     = elem (new_Ball 405 305 20)"
  using C10_held_velocity_zero_across_frames
    [where p = "(page_with 800 600
           [new_Ball 400 300 20,
            (new_Ball 100 100 20)\<lparr>vel_x := 25, vel_y := 25, drag_state :=
               Some \<lparr>offset_x = 10, offset_y = 10, dvel_x = 0, dvel_y = 0,
                     pos_x = 0, pos_y = 0\<rparr>\<rparr>])\<lparr>mouse_x := 405, mouse_y := 305\<rparr>"
       and ins = "[\<lparr>in_mouse_x = 410, in_mouse_y = 310, in_gravity = True,
                     in_resistance = True\<rparr>]"
       and k = 0
       and b = "(new_Ball 400 300 20)\<lparr>vel_x := 25, vel_y := 25, drag_state :=
                  Some \<lparr>offset_x = 5, offset_y = 5, dvel_x = 0, dvel_y = 0,
                        pos_x = 0, pos_y = 0\<rparr>\<rparr>"
       and d = "\<lparr>offset_x = 5, offset_y = 5, dvel_x = 0, dvel_y = 0, pos_x = 0, pos_y = 0\<rparr>"
       and g = True and res = True and mx = 410 and my = 310]
  by (simp add: held_still_def page_with_def new_Ball_def mousedown_def start_drag_def
      new_DragState_def tick_def advance_frame_def advance_ball_def apply_gravity_def
      apply_resistance_def move_def follow_mouse_def update_velocity_def
      handle_collisions_def collide_walls_def collide_left_def collide_right_def
      collide_top_def collide_bottom_def)

text \<open>
  The claim as stated, for every point between \<^verbatim>\<open>start_drag\<close> and \<^verbatim>\<open>stop_drag\<close>,
  fails when the improbability drive runs in between: it assigns a velocity to every ball,
  held or not. With every draw equal to one half, the held ball gets velocity \<open>(25, 25)\<close>
  and stays held.
\<close>

theorem C10_improbability_drive_counterexample:
  "infinite_improbability_drive (\<lambda>k. 1 / 2)
     (mousedown 0
        ((page_with 800 600 [new_Ball 400 300 20])\<lparr>mouse_x := 405, mouse_y := 305\<rparr>))
   = Inr \<lparr>mouse_x = 405, mouse_y = 305,
          balls = [\<lparr>vel_x = 25, vel_y = 25,
                    elem = \<lparr>attr_cx = 400, attr_cy = 300, attr_r = 78,
                            attr_fill = ''#808080'', attr_stroke = Some ''red'',
                            attr_stroke_width = Some ''4''\<rparr>,
                    drag_state = Some \<lparr>offset_x = 5, offset_y = 5, dvel_x = 0, dvel_y = 0,
                                        pos_x = 0, pos_y = 0\<rparr>\<rparr>],
          ball_selector_value = 1, ball_size_range_value = 78,
          svg_width = 800, svg_height = 600,
          gravity_checkbox = False, resistance_checkbox = False\<rparr> \<and>
   \<not> held_still \<lparr>vel_x = 25, vel_y = 25,
                   elem = \<lparr>attr_cx = 400, attr_cy = 300, attr_r = 78,
                           attr_fill = ''#808080'', attr_stroke = Some ''red'',
                           attr_stroke_width = Some ''4''\<rparr>,
                   drag_state = Some \<lparr>offset_x = 5, offset_y = 5, dvel_x = 0, dvel_y = 0,
                                       pos_x = 0, pos_y = 0\<rparr>\<rparr>"
  by (simp add: infinite_improbability_drive_def mousedown_def page_with_def new_Ball_def
      start_drag_def new_DragState_def improbable_ball_def rdm_hex_pair_def Math_floor_def
      Math_round_def hex_digit_def select_ball_def clear_highlight_def highlight_def
      held_still_def)

section \<open>A frame under gravity\<close>

text \<open>
  Claim C7. A single free ball at \<open>(400, 300)\<close> with radius 20 and zero velocity, gravity
  on and resistance off, in a viewport that the ball does not touch after the move (wider
  than 420 and higher than 321): one frame gives \<open>vy = 1\<close>, \<open>vx = 0\<close> and position
  \<open>(400, 301)\<close>, wherever the pointer is.
\<close>

theorem C7_one_frame_of_gravity:
  assumes "420 < w" and "321 < h"
  shows "advance_frame ((page_with w h [new_Ball 400 300 20])
            \<lparr>mouse_x := mx, mouse_y := my, gravity_checkbox := True\<rparr>)
         = Inr ((page_with w h [(new_Ball 400 301 20)\<lparr>vel_y := 1\<rparr>])
            \<lparr>mouse_x := mx, mouse_y := my, gravity_checkbox := True\<rparr>)"
  using assms
  by (simp add: advance_frame_def page_with_def new_Ball_def advance_ball_def
      apply_gravity_def apply_resistance_def move_def follow_mouse_def handle_collisions_def
      collide_walls_def collide_left_def collide_right_def collide_top_def collide_bottom_def)

theorem C7_one_frame_of_gravity_witness:
  "(420 :: int) < 800 \<and> (321 :: int) < 600 \<and>
   advance_frame ((page_with 800 600 [new_Ball 400 300 20])
      \<lparr>mouse_x := 10, mouse_y := 20, gravity_checkbox := True\<rparr>)
   = Inr ((page_with 800 600 [(new_Ball 400 301 20)\<lparr>vel_y := 1\<rparr>])
      \<lparr>mouse_x := 10, mouse_y := 20, gravity_checkbox := True\<rparr>) \<and>
   vel_x ((new_Ball 400 301 20)\<lparr>vel_y := 1\<rparr>) = 0 \<and>
   vel_y ((new_Ball 400 301 20)\<lparr>vel_y := 1\<rparr>) = 1 \<and>
   attr_cx (elem ((new_Ball 400 301 20)\<lparr>vel_y := 1\<rparr>)) = 400 \<and>
   attr_cy (elem ((new_Ball 400 301 20)\<lparr>vel_y := 1\<rparr>)) = 301"
  using C7_one_frame_of_gravity [where w = 800 and h = 600 and mx = 10 and my = 20]
  by (simp add: new_Ball_def)

section \<open>Selecting a ball twice\<close>

lemma filter_update_single:
  assumes "i < length xs" and "\<forall>x \<in> set xs. \<not> P x" and "P y"
  shows "filter P (xs[i := y]) = [y]"
proof -
  have "\<forall>x \<in> set (take i xs). \<not> P x" "\<forall>x \<in> set (drop (Suc i) xs). \<not> P x"
    using assms(2) by (auto dest: in_set_takeD in_set_dropD)
  then have "filter P (take i xs) = []" "filter P (drop (Suc i) xs) = []"
    by (simp_all add: filter_empty_conv)
  then show ?thesis
    using assms(1,3) by (simp add: upd_conv_take_nth_drop)
qed

lemma clear_highlight_highlight: "clear_highlight (highlight b) = clear_highlight b"
  by (simp add: clear_highlight_def highlight_def)

lemma clear_highlight_idem: "clear_highlight (clear_highlight b) = clear_highlight b"
  by (simp add: clear_highlight_def)

lemma select_ball_valid:
  assumes "1 \<le> n" and "n \<le> int (length (balls p))"
  shows "\<exists>p1. select_ball n p = Inr p1 \<and> select_ball n p1 = Inr p1 \<and>
     ball_selector_value p1 = n \<and>
     ball_size_range_value p1 = attr_r (elem (balls p ! nat (n - 1))) \<and>
     attr_r (elem (balls p1 ! nat (n - 1))) = attr_r (elem (balls p ! nat (n - 1))) \<and>
     length (balls p1) = length (balls p) \<and>
     filter highlighted (balls p1) = [balls p1 ! nat (n - 1)]"
proof -
  define i where "i = nat (n - 1)"
  define bs where "bs = map clear_highlight (balls p)"
  define p1 where "p1 = p\<lparr>ball_selector_value := n,
      ball_size_range_value := attr_r (elem (balls p ! i)),
      balls := bs[i := highlight (bs ! i)]\<rparr>"
  have i: "i < length (balls p)" using assms by (simp add: i_def)
  have s1: "select_ball n p = Inr p1"
    using assms by (simp add: select_ball_def Let_def p1_def bs_def i_def)
  have len: "length (balls p1) = length (balls p)" by (simp add: p1_def bs_def)
  have bsi: "bs ! i = clear_highlight (balls p ! i)" using i by (simp add: bs_def)
  have again: "map clear_highlight (balls p1) = bs"
  proof -
    have "map clear_highlight (balls p1)
        = (map clear_highlight bs)[i := clear_highlight (bs ! i)]"
      by (simp add: p1_def map_update clear_highlight_highlight)
    also have "map clear_highlight bs = bs" by (simp add: bs_def clear_highlight_idem)
    also have "clear_highlight (bs ! i) = bs ! i" by (simp add: bsi clear_highlight_idem)
    finally show ?thesis by simp
  qed
  have r1: "attr_r (elem (balls p1 ! i)) = attr_r (elem (balls p ! i))"
    using i by (simp add: p1_def bs_def highlight_def clear_highlight_def)
  have s2: "select_ball n p1 = Inr p1"
    using assms len r1 again
    by (simp add: select_ball_def Let_def i_def [symmetric]) (simp add: p1_def)
  have "\<forall>b \<in> set bs. \<not> highlighted b"
    by (auto simp add: bs_def highlighted_def clear_highlight_def)
  moreover have "highlighted (highlight (bs ! i))"
    by (simp add: highlighted_def highlight_def)
  ultimately have "filter highlighted (bs[i := highlight (bs ! i)]) = [highlight (bs ! i)]"
    using i by (intro filter_update_single) (simp_all add: bs_def)
  then have f: "filter highlighted (balls p1) = [balls p1 ! i]"
    using i by (simp add: p1_def bs_def)
  show ?thesis
    using s1 s2 len f r1 by (simp add: p1_def i_def)
qed

text \<open>
  Claim C8. For a ball number \<open>n\<close> between 1 and the number of balls, \<^verbatim>\<open>select_ball(n)\<close>
  returns a page on which a second \<^verbatim>\<open>select_ball(n)\<close> changes nothing: the size control
  holds the radius of ball \<open>n\<close> after one call as after two, and the balls with a stroke
  are ball \<open>n\<close> alone.
\<close>

theorem C8_select_ball_idempotent:
  assumes "1 \<le> n" and "n \<le> int (length (balls p))"
  shows "\<exists>p1. select_ball n p = Inr p1 \<and> select_ball n p1 = Inr p1 \<and>
     ball_size_range_value p1 = attr_r (elem (balls p ! nat (n - 1))) \<and>
     length (balls p1) = length (balls p) \<and>
     filter highlighted (balls p1) = [balls p1 ! nat (n - 1)]"
  using select_ball_valid [OF assms] by blast

theorem C8_select_ball_idempotent_witness:
  "(1 :: int) \<le> 2 \<and>
   2 \<le> int (length (balls (page_with 800 600 [new_Ball 400 300 20, new_Ball 100 100 35]))) \<and>
   select_ball 2 (page_with 800 600 [new_Ball 400 300 20, new_Ball 100 100 35])
     = Inr ((page_with 800 600 [new_Ball 400 300 20, highlight (new_Ball 100 100 35)])
             \<lparr>ball_selector_value := 2, ball_size_range_value := 35\<rparr>) \<and>
   select_ball 2 ((page_with 800 600 [new_Ball 400 300 20, highlight (new_Ball 100 100 35)])
             \<lparr>ball_selector_value := 2, ball_size_range_value := 35\<rparr>)
     = Inr ((page_with 800 600 [new_Ball 400 300 20, highlight (new_Ball 100 100 35)])
             \<lparr>ball_selector_value := 2, ball_size_range_value := 35\<rparr>) \<and>
   filter highlighted [new_Ball 400 300 20, highlight (new_Ball 100 100 35)]
     = [highlight (new_Ball 100 100 35)]"
  using C8_select_ball_idempotent
    [of 2 "page_with 800 600 [new_Ball 400 300 20, new_Ball 100 100 35]"]
  by (simp add: select_ball_def page_with_def new_Ball_def clear_highlight_def highlight_def
      highlighted_def Let_def)

section \<open>The ranges of the improbability drive\<close>

lemma Math_round_scaled:
  assumes "0 \<le> u" and "u < 1" and "0 \<le> c"
  shows "0 \<le> Math_round (u * real_of_int c) \<and> Math_round (u * real_of_int c) \<le> c"
proof -
  have "u * real_of_int c \<le> real_of_int c"
    using assms by (simp add: mult_left_le_one_le)
  then have "u * real_of_int c + 1 / 2 < real_of_int (c + 1)" by simp
  then have "\<lfloor>u * real_of_int c + 1 / 2\<rfloor> < c + 1" by (simp only: floor_less_iff)
  moreover have "0 \<le> u * real_of_int c + 1 / 2" using assms by simp
  then have "0 \<le> \<lfloor>u * real_of_int c + 1 / 2\<rfloor>" by simp
  ultimately show ?thesis by (simp add: Math_round_def)
qed

lemma improbable_ball_ok:
  assumes u: "\<forall>k. 0 \<le> u k \<and> u k < 1" and "0 \<le> w" and "0 \<le> h"
  shows "improbable_ok w h (improbable_ball w h u b)"
  using Math_round_scaled [of "u 3" w] Math_round_scaled [of "u 4" h]
    Math_round_scaled [of "u 5" 145] Math_round_scaled [of "u 6" 50]
    Math_round_scaled [of "u 7" 50] assms
  by (simp add: improbable_ok_def improbable_ball_def)

lemma improbable_balls_ok:
  assumes u: "\<forall>k. 0 \<le> u k \<and> u k < 1" and "0 \<le> w" and "0 \<le> h"
  shows "length (improbable_balls w h u k bs) = length bs \<and>
     list_all (improbable_ok w h) (improbable_balls w h u k bs)"
proof (induction bs arbitrary: k)
  case Nil
  show ?case by simp
next
  case (Cons b bs)
  have "improbable_ok w h (improbable_ball w h (\<lambda>j. u (k + j)) b)"
    using assms by (intro improbable_ball_ok) simp_all
  then show ?case using Cons [of "k + 8"] by simp
qed

lemma improbable_ok_frame:
  "improbable_ok w h (highlight b) = improbable_ok w h b"
  "improbable_ok w h (clear_highlight b) = improbable_ok w h b"
  by (simp_all add: improbable_ok_def highlight_def clear_highlight_def)

lemma select_ball_improbable_ok:
  assumes "select_ball n p = Inr p1" and "list_all (improbable_ok w h) (balls p)"
  shows "list_all (improbable_ok w h) (balls p1)"
proof -
  define i where "i = nat (n - 1)"
  define bs where "bs = map clear_highlight (balls p)"
  have valid: "1 \<le> n \<and> n \<le> int (length (balls p))"
    using assms(1) by (simp add: select_ball_def split: if_splits)
  then have i: "i < length bs" by (auto simp add: i_def bs_def)
  have p1: "balls p1 = bs[i := highlight (bs ! i)]"
    using assms(1) valid by (auto simp add: select_ball_def Let_def i_def bs_def)
  have all: "\<forall>b \<in> set bs. improbable_ok w h b"
    using assms(2) by (simp add: bs_def list_all_iff improbable_ok_frame)
  then have "improbable_ok w h (highlight (bs ! i))"
    using i by (simp add: improbable_ok_frame)
  then have "\<forall>b \<in> set (bs[i := highlight (bs ! i)]). improbable_ok w h b"
    using all set_update_subset_insert [of bs i "highlight (bs ! i)"] by auto
  then show ?thesis by (simp add: p1 list_all_iff)
qed

text \<open>
  Claim C9. Whatever \<^verbatim>\<open>Math.random\<close> returns (values in \<open>[0, 1)\<close>), on a viewport of
  non-negative size the loop of the improbability drive gives every ball a radius in
  \<open>[5, 150]\<close>, a centre in \<open>[0, width] \<times> [0, height]\<close> and both velocity components in
  \<open>[0, 50]\<close>. With a ball selected, the drive then returns, the balls are still in these
  ranges, and the size control holds the new radius of the selected ball.
\<close>

theorem C9_improbability_ranges:
  assumes "\<forall>k. 0 \<le> u k \<and> u k < 1"
    and "0 \<le> svg_width p" and "0 \<le> svg_height p"
  shows "list_all (improbable_ok (svg_width p) (svg_height p))
       (improbable_balls (svg_width p) (svg_height p) u 0 (balls p)) \<and>
     (1 \<le> ball_selector_value p \<and> ball_selector_value p \<le> int (length (balls p)) \<longrightarrow>
      (\<exists>p'. infinite_improbability_drive u p = Inr p' \<and>
         length (balls p') = length (balls p) \<and>
         list_all (improbable_ok (svg_width p) (svg_height p)) (balls p') \<and>
         ball_selector_value p' = ball_selector_value p \<and>
         ball_size_range_value p'
           = attr_r (elem (balls p' ! nat (ball_selector_value p - 1)))))"
proof -
  let ?q = "p\<lparr>balls := improbable_balls (svg_width p) (svg_height p) u 0 (balls p)\<rparr>"
  have q: "length (balls ?q) = length (balls p)"
      "list_all (improbable_ok (svg_width p) (svg_height p)) (balls ?q)"
    using improbable_balls_ok [OF assms(1-3), of 0 "balls p"] by simp_all
  have "\<exists>p'. infinite_improbability_drive u p = Inr p' \<and>
         length (balls p') = length (balls p) \<and>
         list_all (improbable_ok (svg_width p) (svg_height p)) (balls p') \<and>
         ball_selector_value p' = ball_selector_value p \<and>
         ball_size_range_value p'
           = attr_r (elem (balls p' ! nat (ball_selector_value p - 1)))"
    if sel: "1 \<le> ball_selector_value p" "ball_selector_value p \<le> int (length (balls p))"
  proof -
    have "1 \<le> ball_selector_value p" "ball_selector_value p \<le> int (length (balls ?q))"
      using sel q(1) by simp_all
    from select_ball_valid [OF this] obtain p1 where
      p1: "select_ball (ball_selector_value p) ?q = Inr p1"
        "ball_selector_value p1 = ball_selector_value p"
        "ball_size_range_value p1
           = attr_r (elem (balls ?q ! nat (ball_selector_value p - 1)))"
        "attr_r (elem (balls p1 ! nat (ball_selector_value p - 1)))
           = attr_r (elem (balls ?q ! nat (ball_selector_value p - 1)))"
        "length (balls p1) = length (balls ?q)"
      by blast
    have "list_all (improbable_ok (svg_width p) (svg_height p)) (balls p1)"
      using select_ball_improbable_ok [OF p1(1) q(2)] .
    then show ?thesis
      using p1 q(1) by (simp add: infinite_improbability_drive_def)
  qed
  then show ?thesis using q(2) by simp
qed

theorem C9_improbability_ranges_witness:
  "(\<forall>k :: nat. (0 :: real) \<le> 1 / 2 \<and> (1 :: real) / 2 < 1) \<and>
   0 \<le> svg_width (page_with 800 600 [new_Ball 400 300 20]) \<and>
   0 \<le> svg_height (page_with 800 600 [new_Ball 400 300 20]) \<and>
   1 \<le> ball_selector_value (page_with 800 600 [new_Ball 400 300 20]) \<and>
   ball_selector_value (page_with 800 600 [new_Ball 400 300 20])
     \<le> int (length (balls (page_with 800 600 [new_Ball 400 300 20]))) \<and>
   infinite_improbability_drive (\<lambda>k. 1 / 2) (page_with 800 600 [new_Ball 400 300 20])
   = Inr ((page_with 800 600
      [\<lparr>vel_x = 25, vel_y = 25,
        elem = \<lparr>attr_cx = 400, attr_cy = 300, attr_r = 78,
                attr_fill = ''#808080'', attr_stroke = Some ''red'',
                attr_stroke_width = Some ''4''\<rparr>,
        drag_state = None\<rparr>])\<lparr>ball_size_range_value := 78\<rparr>) \<and>
   improbable_ok 800 600 \<lparr>vel_x = 25, vel_y = 25,
        elem = \<lparr>attr_cx = 400, attr_cy = 300, attr_r = 78,
                attr_fill = ''#808080'', attr_stroke = Some ''red'',
                attr_stroke_width = Some ''4''\<rparr>,
        drag_state = None\<rparr>"
  using C9_improbability_ranges [of "\<lambda>k. 1 / 2" "page_with 800 600 [new_Ball 400 300 20]"]
  by (simp add: infinite_improbability_drive_def page_with_def new_Ball_def
      improbable_ball_def rdm_hex_pair_def Math_floor_def
      Math_round_def hex_digit_def select_ball_def clear_highlight_def highlight_def
      improbable_ok_def)

section \<open>Double precision\<close>

text \<open>A number whose magnitude, scaled by \<open>2\<^sup>k\<close>, lies in \<open>[2\<^sup>5\<^sup>2, 2\<^sup>5\<^sup>3)\<close> is
  rounded on the grid of spacing \<open>2\<^sup>-\<^sup>k\<close>.\<close>

lemma to_double_eval:
  assumes lo: "2 ^ 52 \<le> \<bar>x\<bar> * 2 ^ k" and hi: "\<bar>x\<bar> * 2 ^ k < 2 ^ 53"
  shows "to_double x = real_of_int (round_half_even (x * 2 ^ k)) / 2 ^ k"
proof -
  have x: "x \<noteq> 0" using lo by auto
  let ?y = "\<bar>x\<bar> * 2 ^ k"
  have ypos: "0 < ?y" using x by simp
  have "(2 :: real) powr 52 \<le> ?y" using lo by simp
  then have l1: "52 \<le> log 2 ?y" using ypos by (simp only: le_log_iff)
  have "?y < (2 :: real) powr 53" using hi by simp
  then have l2: "log 2 ?y < 53" using ypos by (simp only: log_less_iff)
  have "log 2 ?y = log 2 \<bar>x\<bar> + real k"
    using x by (simp add: log_mult log_nat_power)
  then have "52 - real k \<le> log 2 \<bar>x\<bar>" "log 2 \<bar>x\<bar> < 53 - real k"
    using l1 l2 by simp_all
  then have "\<lfloor>log 2 \<bar>x\<bar>\<rfloor> = 52 - int k"
    by (subst floor_eq_iff) simp
  then have u: "2 powr real_of_int (\<lfloor>log 2 \<bar>x\<bar>\<rfloor> - 52) = 1 / 2 ^ k"
    by (simp add: powr_minus powr_realpow inverse_eq_divide)
  show ?thesis
    unfolding to_double_def Let_def u using x by simp
qed


lemma literal_0002: "to_double 0.0002 = 7378697629483821 / 2 ^ 65"
  by (subst to_double_eval [where k = 65]) (simp_all add: round_half_even_def Let_def)


section \<open>Fluid resistance\<close>

lemma sqrt_2500: "sqrt 2500 = 50"
  using real_sqrt_abs [of 50] by simp

lemma sqrt_900: "sqrt 900 = 30"
  using real_sqrt_abs [of 30] by simp

lemma sqrt_225: "sqrt 225 = 15"
  using real_sqrt_abs [of 15] by simp


text \<open>The test \<^verbatim>\<open>x_accel > Math.abs(vel_x)\<close> compares the signed change with the
  magnitude of the velocity. For a velocity and a change that are not negative this is
  the comparison of the magnitudes; a negative change never passes it.\<close>

lemma resist_nonneg:
  "0 \<le> v \<Longrightarrow> 0 \<le> accel \<Longrightarrow> resist accel v = (if \<bar>accel\<bar> > \<bar>v\<bar> then 0 else v - accel)"
  by (simp add: resist_def)

lemma resist_negative: "accel \<le> 0 \<Longrightarrow> resist accel v = v - accel"
  by (auto simp add: resist_def)

text \<open>The changes for a ball of radius 150 with velocity \<open>(- 30, - 40)\<close>, one double
  operation after the other.\<close>

lemma accel_r150:
  "x_accel ((new_Ball 400 300 150)\<lparr>vel_x := - 30, vel_y := - 40\<rparr>) = - 45"
  "y_accel ((new_Ball 400 300 150)\<lparr>vel_x := - 30, vel_y := - 40\<rparr>) = - 60"
proof -
  have s1: "Math_pow (- 40) 2 = 1600"
    unfolding Math_pow_def
    by (subst to_double_eval [where k = 42])
      (simp_all add: round_half_even_def Let_def)
  have s2: "Math_pow (- 30) 2 = 900"
    unfolding Math_pow_def
    by (subst to_double_eval [where k = 43])
      (simp_all add: round_half_even_def Let_def)
  have s3: "dadd 1600 900 = 2500"
    unfolding dadd_def
    by (subst to_double_eval [where k = 41])
      (simp_all add: round_half_even_def Let_def)
  have s4: "Math_sqrt 2500 = 50"
    unfolding Math_sqrt_def sqrt_2500
    by (subst to_double_eval [where k = 47])
      (simp_all add: round_half_even_def Let_def)
  have s5: "dmul 50 (- 30) = - 1500"
    unfolding dmul_def
    by (subst to_double_eval [where k = 42])
      (simp_all add: round_half_even_def Let_def)
  have s6: "dmul (- 1500) (to_double 0.0002) = - 5404319552844595 / 2 ^ 54"
    unfolding dmul_def literal_0002
    by (subst to_double_eval [where k = 54])
      (simp_all add: round_half_even_def Let_def)
  have s7: "dmul (- 5404319552844595 / 2 ^ 54) 150 = - 45"
    unfolding dmul_def
    by (subst to_double_eval [where k = 47])
      (simp_all add: round_half_even_def Let_def)
  have t5: "dmul 50 (- 40) = - 2000"
    unfolding dmul_def
    by (subst to_double_eval [where k = 42])
      (simp_all add: round_half_even_def Let_def)
  have t6: "dmul (- 2000) (to_double 0.0002) = - 3602879701896397 / 2 ^ 53"
    unfolding dmul_def literal_0002
    by (subst to_double_eval [where k = 54])
      (simp_all add: round_half_even_def Let_def)
  have t7: "dmul (- 3602879701896397 / 2 ^ 53) 150 = - 60"
    unfolding dmul_def
    by (subst to_double_eval [where k = 47])
      (simp_all add: round_half_even_def Let_def)
  have "x_accel ((new_Ball 400 300 150)\<lparr>vel_x := - 30, vel_y := - 40\<rparr>) =
      Math_round (dmul (dmul (dmul (Math_sqrt (dadd (Math_pow (- 40) 2) (Math_pow (- 30) 2)))
        (- 30)) (to_double 0.0002)) 150)"
    by (simp add: x_accel_def new_Ball_def)
  then show "x_accel ((new_Ball 400 300 150)\<lparr>vel_x := - 30, vel_y := - 40\<rparr>) = - 45"
    by (simp only: s1 s2 s3 s4 s5 s6 s7) (simp add: Math_round_def)
  have "y_accel ((new_Ball 400 300 150)\<lparr>vel_x := - 30, vel_y := - 40\<rparr>) =
      Math_round (dmul (dmul (dmul (Math_sqrt (dadd (Math_pow (- 40) 2) (Math_pow (- 30) 2)))
        (- 40)) (to_double 0.0002)) 150)"
    by (simp add: y_accel_def new_Ball_def)
  then show "y_accel ((new_Ball 400 300 150)\<lparr>vel_x := - 30, vel_y := - 40\<rparr>) = - 60"
    by (simp only: s1 s2 s3 s4 t5 t6 t7) (simp add: Math_round_def)
qed

text \<open>
  Claim C1. The claim: with resistance on, the computed change is subtracted from each
  velocity component of a free ball, and a component whose magnitude the change exceeds,
  of either sign, becomes exactly 0. The code does so for a component that is not
  negative (\<open>vx = 5\<close>, change 9, gives 0). For a negative component the change is negative
  too, the test never passes, and the subtraction overshoots: a free ball of radius 150
  with velocity \<open>(- 30, - 40)\<close> has changes \<open>- 45\<close> and \<open>- 60\<close> and leaves the frame
  with velocity \<open>(15, 20)\<close>, not \<open>(0, 0)\<close>.
\<close>

theorem C1_negative_velocity_overshoots:
  "x_accel ((new_Ball 400 300 150)\<lparr>vel_x := - 30, vel_y := - 40\<rparr>) = - 45 \<and>
   y_accel ((new_Ball 400 300 150)\<lparr>vel_x := - 30, vel_y := - 40\<rparr>) = - 60 \<and>
   advance_ball False True mx my ((new_Ball 400 300 150)\<lparr>vel_x := - 30, vel_y := - 40\<rparr>)
     = (new_Ball 415 320 150)\<lparr>vel_x := 15, vel_y := 20\<rparr> \<and>
   resist 9 5 = 0 \<and> resist (- 9) (- 5) = 4"
  by (simp add: advance_ball_def apply_gravity_def apply_resistance_def accel_r150
      resist_def Let_def move_def follow_mouse_def)
    (simp add: new_Ball_def)

text \<open>
  The rounding of the doubles decides the change where the exact product is a half: for
  radius 25 and velocity \<open>(- 30, 0)\<close>, and for radius 100 and velocity \<open>(0, - 15)\<close>, the
  exact product is \<open>- 4.5\<close>, the product of the doubles is just below it, and
  \<^verbatim>\<open>Math.round\<close> gives \<open>- 5\<close>.
\<close>

lemma accel_r25:
  "x_accel ((new_Ball 400 300 25)\<lparr>vel_x := - 30\<rparr>) = - 5"
  "y_accel ((new_Ball 400 300 25)\<lparr>vel_x := - 30\<rparr>) = 0"
proof -
  have s1: "Math_pow 0 2 = 0"
    by (simp add: Math_pow_def to_double_def)
  have s2: "Math_pow (- 30) 2 = 900"
    unfolding Math_pow_def
    by (subst to_double_eval [where k = 43])
      (simp_all add: round_half_even_def Let_def)
  have s3: "dadd 0 900 = 900"
    unfolding dadd_def
    by (subst to_double_eval [where k = 43])
      (simp_all add: round_half_even_def Let_def)
  have s4: "Math_sqrt 900 = 30"
    unfolding Math_sqrt_def sqrt_900
    by (subst to_double_eval [where k = 48])
      (simp_all add: round_half_even_def Let_def)
  have s5: "dmul 30 (- 30) = - 900"
    unfolding dmul_def
    by (subst to_double_eval [where k = 43])
      (simp_all add: round_half_even_def Let_def)
  have s6: "dmul (- 900) (to_double 0.0002) = - 6485183463413515 / 2 ^ 55"
    unfolding dmul_def literal_0002
    by (subst to_double_eval [where k = 55])
      (simp_all add: round_half_even_def Let_def)
  have s7: "dmul (- 6485183463413515 / 2 ^ 55) 25 = - 5066549580791809 / 2 ^ 50"
    unfolding dmul_def
    by (subst to_double_eval [where k = 50])
      (simp_all add: round_half_even_def Let_def)
  have t5: "dmul 30 0 = 0"
    by (simp add: dmul_def to_double_def)
  have t6: "dmul 0 (to_double 0.0002) = 0"
    by (simp add: dmul_def to_double_def)
  have t7: "dmul 0 25 = 0"
    by (simp add: dmul_def to_double_def)
  have "x_accel ((new_Ball 400 300 25)\<lparr>vel_x := - 30\<rparr>) =
      Math_round (dmul (dmul (dmul (Math_sqrt (dadd (Math_pow 0 2) (Math_pow (- 30) 2)))
        (- 30)) (to_double 0.0002)) 25)"
    by (simp add: x_accel_def new_Ball_def)
  then show "x_accel ((new_Ball 400 300 25)\<lparr>vel_x := - 30\<rparr>) = - 5"
    by (simp only: s1 s2 s3 s4 s5 s6 s7) (simp add: Math_round_def)
  have "y_accel ((new_Ball 400 300 25)\<lparr>vel_x := - 30\<rparr>) =
      Math_round (dmul (dmul (dmul (Math_sqrt (dadd (Math_pow 0 2) (Math_pow (- 30) 2)))
        0) (to_double 0.0002)) 25)"
    by (simp add: y_accel_def new_Ball_def)
  then show "y_accel ((new_Ball 400 300 25)\<lparr>vel_x := - 30\<rparr>) = 0"
    by (simp only: s1 s2 s3 s4 t5 t6 t7) (simp add: Math_round_def)
qed

lemma accel_r100_falling:
  "x_accel ((new_Ball 400 300 100)\<lparr>vel_y := - 15\<rparr>) = 0"
  "y_accel ((new_Ball 400 300 100)\<lparr>vel_y := - 15\<rparr>) = - 5"
proof -
  have s1: "Math_pow (- 15) 2 = 225"
    unfolding Math_pow_def
    by (subst to_double_eval [where k = 45])
      (simp_all add: round_half_even_def Let_def)
  have s2: "Math_pow 0 2 = 0"
    by (simp add: Math_pow_def to_double_def)
  have s3: "dadd 225 0 = 225"
    unfolding dadd_def
    by (subst to_double_eval [where k = 45])
      (simp_all add: round_half_even_def Let_def)
  have s4: "Math_sqrt 225 = 15"
    unfolding Math_sqrt_def sqrt_225
    by (subst to_double_eval [where k = 49])
      (simp_all add: round_half_even_def Let_def)
  have s5: "dmul 15 0 = 0"
    by (simp add: dmul_def to_double_def)
  have s6: "dmul 0 (to_double 0.0002) = 0"
    by (simp add: dmul_def to_double_def)
  have s7: "dmul 0 100 = 0"
    by (simp add: dmul_def to_double_def)
  have t5: "dmul 15 (- 15) = - 225"
    unfolding dmul_def
    by (subst to_double_eval [where k = 45])
      (simp_all add: round_half_even_def Let_def)
  have t6: "dmul (- 225) (to_double 0.0002) = - 6485183463413515 / 2 ^ 57"
    unfolding dmul_def literal_0002
    by (subst to_double_eval [where k = 57])
      (simp_all add: round_half_even_def Let_def)
  have t7: "dmul (- 6485183463413515 / 2 ^ 57) 100 = - 5066549580791809 / 2 ^ 50"
    unfolding dmul_def
    by (subst to_double_eval [where k = 50])
      (simp_all add: round_half_even_def Let_def)
  have "x_accel ((new_Ball 400 300 100)\<lparr>vel_y := - 15\<rparr>) =
      Math_round (dmul (dmul (dmul (Math_sqrt (dadd (Math_pow (- 15) 2) (Math_pow 0 2)))
        0) (to_double 0.0002)) 100)"
    by (simp add: x_accel_def new_Ball_def)
  then show "x_accel ((new_Ball 400 300 100)\<lparr>vel_y := - 15\<rparr>) = 0"
    by (simp only: s1 s2 s3 s4 s5 s6 s7) (simp add: Math_round_def)
  have "y_accel ((new_Ball 400 300 100)\<lparr>vel_y := - 15\<rparr>) =
      Math_round (dmul (dmul (dmul (Math_sqrt (dadd (Math_pow (- 15) 2) (Math_pow 0 2)))
        (- 15)) (to_double 0.0002)) 100)"
    by (simp add: y_accel_def new_Ball_def)
  then show "y_accel ((new_Ball 400 300 100)\<lparr>vel_y := - 15\<rparr>) = - 5"
    by (simp only: s1 s2 s3 s4 t5 t6 t7) (simp add: Math_round_def)
qed



lemma sqrt_speed:
  "Math_sqrt (dadd (Math_pow (real_of_int (vel_y b)) 2) (Math_pow (real_of_int (vel_x b)) 2))
     = speed b"
  by (simp add: speed_def dadd_def add.commute)

text \<open>The change of the code is the formula of the specification with \<open>k = 0.0002\<close> on
  the radius, and with \<open>k = 0.0001\<close> on the diameter.\<close>

lemma accel_spec_radius:
  "x_accel b = spec_accel (speed b) (real_of_int (vel_x b)) 0.0002
     (real_of_int (attr_r (elem b)))"
  "y_accel b = spec_accel (speed b) (real_of_int (vel_y b)) 0.0002
     (real_of_int (attr_r (elem b)))"
  by (simp_all only: x_accel_def y_accel_def spec_accel_def sqrt_speed)





end
